theory Spec2Isabelle
  imports Complex_Main
begin

section \<open>Data model of \<open>lib/booking-service.ts\<close>\<close>

text \<open>
  The interfaces of the source become records with the source's field names; a field
  name shared by two interfaces is written qualified (\<open>BookingRequest.idempotencyKey\<close>).
  An optional property (\<open>f?: T\<close>) is a \<open>T option\<close>, \<open>None\<close> standing for
  a property that is absent or \<open>null\<close>. The property \<open>id\<close> is written \<open>id'\<close>. A \<open>number\<close> that the code
  only passes on or compares with nothing is an \<open>int\<close>; \<open>any[]\<close> is a list of strings.
\<close>

record BookingRequest =
  service_variation_id :: string
  team_member_id :: string
  start_at :: string
  service_variation_version :: "int option"
  customer_note :: "string option"
  idempotencyKey :: "string option"

record SquareBookingRequest =
  serviceVariationId :: string
  teamMemberId :: string
  customerId :: "string option"
  startAt :: string
  serviceVariationVersion :: "int option"
  customerNote :: "string option"
  idempotencyKey :: string
  locationId :: string

record AppointmentSegment =
  duration_minutes :: int
  service_variation_id :: string
  team_member_id :: string
  service_variation_version :: int

record TimeSlot =
  start_at :: string
  location_id :: string
  formatted_time :: "string option"
  appointment_segments :: "AppointmentSegment list"

record AvailabilityResponse =
  availabilities_by_date :: "(string \<times> TimeSlot list) list"
  errors :: "string list"

record BookingResponseData =
  id' :: int
  square_booking_id :: string
  service_name :: string
  start_at :: string
  end_at :: string
  status :: string

record BookingResponse =
  data :: BookingResponseData
  status_code :: int
  message :: string

record SquareBooking =
  id' :: string
  status :: string
  startAt :: string
  locationId :: string
  customerId :: "string option"
  createdAt :: string
  version :: string

record SquareBookingResponse =
  success :: bool
  booking :: "SquareBooking option"
  message :: "string option"
  details :: "string list option"
  isRetry :: "bool option"

text \<open>
  The bodies the two other endpoints exchange: the object \<open>syncBookingWithBackend\<close>
  posts (the booking request, with \<open>square_booking_id\<close> spread into it when there is
  one), the object \<open>searchAvailability\<close> posts, and the envelope whose \<open>data\<close>
  property \<open>searchAvailability\<close> returns.
\<close>

record BackendBookingRequest =
  booking_request :: BookingRequest
  square_booking_id :: "string option"

record AvailabilitySearchRequest =
  service_variation_id :: string
  start_at :: string
  end_at :: string

record AvailabilityEnvelope =
  data :: "AvailabilityResponse option"

section \<open>The runtime: errors, promises, \<open>fetch\<close>, \<open>Date\<close>\<close>

text \<open>
  What a rejected promise carries: the rejection of \<open>fetch\<close> itself (no response at
  all), the \<open>SyntaxError\<close> of \<open>response.json()\<close> on a body that is not JSON, the
  \<open>TypeError\<close> of a property read on \<open>null\<close>, the \<open>RangeError\<close> of
  \<open>toISOString\<close> on an invalid date, and \<open>new Error(msg)\<close>.
\<close>

datatype js_error =
    FetchRejected
  | JsonSyntaxError
  | TypeError
  | RangeError
  | Error string

text \<open>
  \<open>response.json()\<close> is untyped: it rejects, or resolves to whatever JSON value the
  body holds. A parsed number is a rational or, for a literal out of range, an infinity.
  The elements of an array are never read by the code and are kept as raw JSON. An object
  is read at the interface the source declares for the endpoint.
\<close>

datatype js_number = Finite rat | PlusInfinity | MinusInfinity

datatype raw_json =
    RawNull
  | RawBoolean bool
  | RawNumber js_number
  | RawString string
  | RawArray "raw_json list"
  | RawObject "(string \<times> raw_json) list"

datatype 'a json =
    JsonNull
  | JsonBoolean bool
  | JsonNumber js_number
  | JsonString string
  | JsonArray "raw_json list"
  | JsonObject 'a

text \<open>
  The truthiness test of \<open>if (v)\<close>, \<open>!v\<close> and \<open>v && \<dots>\<close>: \<open>null\<close>,
  \<open>false\<close>, zero and the empty string are falsy; every other value is truthy, every
  array and every object among them.
\<close>

fun truthy_json :: "'a json \<Rightarrow> bool" where
  "truthy_json JsonNull = False"
| "truthy_json (JsonBoolean b) = b"
| "truthy_json (JsonNumber n) = (n \<noteq> Finite 0)"
| "truthy_json (JsonString s) = (s \<noteq> [])"
| "truthy_json (JsonArray xs) = True"
| "truthy_json (JsonObject x) = True"

text \<open>
  \<open>fetch\<close> either rejects or resolves to a response with its \<open>ok\<close> flag (status
  200 to 299) and its body, which \<open>response.json()\<close> either fails to parse or parses
  to a value.
\<close>

datatype 'a body = Unparsable | Parsed "'a json"

datatype 'a fetch_outcome = NetworkFailure | Response bool "'a body"

text \<open>
  Every outbound request is recorded, in order, with the URL and the
  \<open>Authorization\<close> header where the source sets one.
\<close>

datatype call =
    CreateSquareBookingFetch SquareBookingRequest
  | BookingsFetch string string BackendBookingRequest
  | AvailabilitySearchFetch string string AvailabilitySearchRequest

text \<open>
  An \<open>async\<close> function is the list of requests it made together with how its promise
  settled: \<open>Inl e\<close> rejected with \<open>e\<close>, \<open>Inr v\<close> fulfilled with \<open>v\<close>.
\<close>

type_synonym 'a promise = "call list \<times> (js_error + 'a)"

text \<open>
  Everything the code reads from outside itself is a field of the world it runs in: the
  value \<open>crypto.randomUUID()\<close> returns, the two environment variables, the two
  \<open>localStorage\<close> items, the answer of each endpoint to each request, and the
  \<open>Date\<close> built-ins: \<open>Date_parse s\<close> is the time value of \<open>new Date(s)\<close> in
  milliseconds (\<open>None\<close> for \<open>NaN\<close>), \<open>toISOString t\<close> the ISO text of a valid
  time value.
\<close>

record world =
  randomUUID :: string
  NEXT_PUBLIC_API_URL :: "string option"
  NEXT_PUBLIC_SQUARE_LOCATION_ID :: "string option"
  token :: "string option"
  square_customer_id :: "string option"
  fetch_create_square_booking :: "SquareBookingRequest \<Rightarrow> SquareBookingResponse fetch_outcome"
  fetch_bookings :: "string \<Rightarrow> string \<Rightarrow> BackendBookingRequest \<Rightarrow> BookingResponse fetch_outcome"
  fetch_availability_search ::
    "string \<Rightarrow> string \<Rightarrow> AvailabilitySearchRequest \<Rightarrow> AvailabilityEnvelope fetch_outcome"
  Date_parse :: "string \<Rightarrow> int option"
  toISOString :: "int \<Rightarrow> string"

text \<open>
  \<open>a || b\<close> on an optional string: \<open>undefined\<close>, \<open>null\<close> and the empty string are
  falsy, every other string is truthy.
\<close>

definition truthy :: "string option \<Rightarrow> bool" where
  "truthy a = (case a of None \<Rightarrow> False | Some s \<Rightarrow> s \<noteq> [])"

definition or_string :: "string option \<Rightarrow> string \<Rightarrow> string" where
  "or_string a b = (case a of None \<Rightarrow> b | Some s \<Rightarrow> if s = [] then b else s)"

definition or_undefined :: "string option \<Rightarrow> string option" where
  "or_undefined a = (if truthy a then a else None)"

text \<open>
  A \<open>Date\<close> object holds a time value or is invalid (\<open>None\<close>). \<open>new Date(t)\<close> on a
  number clips: a time value beyond 8.64e15 ms on either side of the epoch is invalid.
  \<open>toISOString\<close> throws \<open>RangeError\<close> on an invalid date.
\<close>

type_synonym Date = "int option"

definition Date_of_number :: "int option \<Rightarrow> Date" where
  "Date_of_number n =
     (case n of None \<Rightarrow> None
      | Some t \<Rightarrow> if \<bar>t\<bar> \<le> 8640000000000000 then Some t else None)"

definition Date_toISOString :: "world \<Rightarrow> Date \<Rightarrow> js_error + string" where
  "Date_toISOString w d =
     (case d of None \<Rightarrow> Inl RangeError | Some t \<Rightarrow> Inr (toISOString w t))"

definition api_url :: "world \<Rightarrow> string" where
  "api_url w = or_string (NEXT_PUBLIC_API_URL w) ''http://localhost:3001/api''"

definition bearer :: "world \<Rightarrow> string" where
  "bearer w = ''Bearer '' @ or_string (token w) ''null''"

section \<open>\<open>BookingService\<close>\<close>

subsection \<open>\<open>createSquareBooking\<close>\<close>

text \<open>
  The body of the \<open>try\<close> block: post, parse, and throw unless the response is ok and
  the body's \<open>success\<close> is true. The parsed body is the source's \<open>data\<close>. On
  \<open>null\<close> the read of \<open>data.success\<close> (or of \<open>data.message\<close>, when the
  response is not ok) throws. On a boolean, a number, a string or an array both reads give
  \<open>undefined\<close>, so the test throws the error with the default message.
\<close>

definition createSquareBooking_try ::
  "world \<Rightarrow> SquareBookingRequest \<Rightarrow> js_error + SquareBookingResponse" where
  "createSquareBooking_try w bookingData =
     (case fetch_create_square_booking w bookingData of
        NetworkFailure \<Rightarrow> Inl FetchRejected
      | Response ok body \<Rightarrow>
          (case body of
             Unparsable \<Rightarrow> Inl JsonSyntaxError
           | Parsed JsonNull \<Rightarrow> Inl TypeError
           | Parsed (JsonObject parsed) \<Rightarrow>
               if \<not> ok \<or> \<not> success parsed
               then Inl (Error (or_string (SquareBookingResponse.message parsed)
                                  ''Failed to create Square booking''))
               else Inr parsed
           | Parsed _ \<Rightarrow> Inl (Error ''Failed to create Square booking'')))"

text \<open>The \<open>catch\<close> logs and rethrows the same error.\<close>

definition createSquareBooking ::
  "world \<Rightarrow> SquareBookingRequest \<Rightarrow> SquareBookingResponse promise" where
  "createSquareBooking w bookingData =
     ([CreateSquareBookingFetch bookingData],
      case createSquareBooking_try w bookingData of
        Inl error \<Rightarrow> Inl error
      | Inr parsed \<Rightarrow> Inr parsed)"

subsection \<open>\<open>syncBookingWithBackend\<close>\<close>

definition backendRequestData :: "BookingRequest \<Rightarrow> string option \<Rightarrow> BackendBookingRequest" where
  "backendRequestData bookingData squareBookingId =
     (if truthy squareBookingId
      then \<lparr> booking_request = bookingData, BackendBookingRequest.square_booking_id = squareBookingId \<rparr>
      else \<lparr> booking_request = bookingData, BackendBookingRequest.square_booking_id = None \<rparr>)"

text \<open>
  The body of the \<open>try\<close> block. Line 175 returns whatever was parsed when the
  response is ok, and \<open>null\<close> otherwise.
\<close>

definition syncBookingWithBackend_try ::
  "world \<Rightarrow> BookingRequest \<Rightarrow> string option \<Rightarrow> js_error + BookingResponse json" where
  "syncBookingWithBackend_try w bookingData squareBookingId =
     (case fetch_bookings w (api_url w @ ''/bookings'') (bearer w)
             (backendRequestData bookingData squareBookingId) of
        NetworkFailure \<Rightarrow> Inl FetchRejected
      | Response ok body \<Rightarrow>
          (case body of
             Unparsable \<Rightarrow> Inl JsonSyntaxError
           | Parsed parsed \<Rightarrow> Inr (if ok then parsed else JsonNull)))"

text \<open>The \<open>catch\<close> logs and returns \<open>null\<close>.\<close>

definition syncBookingWithBackend ::
  "world \<Rightarrow> BookingRequest \<Rightarrow> string option \<Rightarrow> BookingResponse json promise" where
  "syncBookingWithBackend w bookingData squareBookingId =
     ([BookingsFetch (api_url w @ ''/bookings'') (bearer w)
         (backendRequestData bookingData squareBookingId)],
      case syncBookingWithBackend_try w bookingData squareBookingId of
        Inl error \<Rightarrow> Inr JsonNull
      | Inr r \<Rightarrow> Inr r)"

subsection \<open>\<open>createBooking\<close>\<close>

text \<open>The key of line 189 and the object literal passed to \<open>createSquareBooking\<close>.\<close>

definition bookingIdempotencyKey :: "world \<Rightarrow> BookingRequest \<Rightarrow> string" where
  "bookingIdempotencyKey w bookingData =
     or_string (BookingRequest.idempotencyKey bookingData) (randomUUID w)"

definition squareBookingRequest :: "world \<Rightarrow> BookingRequest \<Rightarrow> SquareBookingRequest" where
  "squareBookingRequest w bookingData =
     \<lparr> serviceVariationId = BookingRequest.service_variation_id bookingData,
       teamMemberId = BookingRequest.team_member_id bookingData,
       SquareBookingRequest.customerId = or_undefined (square_customer_id w),
       SquareBookingRequest.startAt = BookingRequest.start_at bookingData,
       serviceVariationVersion = BookingRequest.service_variation_version bookingData,
       customerNote = customer_note bookingData,
       SquareBookingRequest.idempotencyKey = bookingIdempotencyKey w bookingData,
       SquareBookingRequest.locationId = or_string (NEXT_PUBLIC_SQUARE_LOCATION_ID w) [] \<rparr>"

text \<open>The request handed to the sync: the caller's, with the key of line 189 in it.\<close>

definition syncBookingData :: "world \<Rightarrow> BookingRequest \<Rightarrow> BookingRequest" where
  "syncBookingData w bookingData =
     bookingData \<lparr> BookingRequest.idempotencyKey := Some (bookingIdempotencyKey w bookingData) \<rparr>"

text \<open>
  The synthetic response of lines 218 to 229. Its \<open>end_at\<close> is
  \<open>new Date(new Date(startAt).getTime() + 3600000).toISOString()\<close>, which throws when
  the sum is not a valid time value.
\<close>

definition syntheticResponse :: "world \<Rightarrow> SquareBooking \<Rightarrow> js_error + BookingResponse" where
  "syntheticResponse w b =
     (case Date_toISOString w
             (Date_of_number (map_option (\<lambda>t. t + 3600000) (Date_parse w (SquareBooking.startAt b)))) of
        Inl error \<Rightarrow> Inl error
      | Inr endAt \<Rightarrow>
          Inr \<lparr> BookingResponse.data =
                  \<lparr> BookingResponseData.id' = 0,
                    BookingResponseData.square_booking_id = SquareBooking.id' b,
                    service_name = ''Your appointment'',
                    BookingResponseData.start_at = SquareBooking.startAt b,
                    BookingResponseData.end_at = endAt,
                    BookingResponseData.status = or_string (Some (SquareBooking.status b)) ''ACCEPTED'' \<rparr>,
                status_code = 200,
                BookingResponse.message =
                  ''Booking created in Square but not yet synced with backend'' \<rparr>)"

definition bothFailed :: js_error where
  "bothFailed = Error ''Failed to create booking in both Square and backend systems''"

text \<open>
  Lines 216 and 234 test the truthiness of \<open>backendResponse\<close>, not whether it is
  \<open>null\<close>: a falsy sync result with a booking gives the synthetic response, a truthy
  one is returned as it is, and a falsy one without a booking reaches the final
  \<open>throw\<close>.
\<close>

definition createBooking :: "world \<Rightarrow> BookingRequest \<Rightarrow> BookingResponse json promise" where
  "createBooking w bookingData =
     (case createSquareBooking w (squareBookingRequest w bookingData) of
        (calls1, Inl error) \<Rightarrow> (calls1, Inl error)
      | (calls1, Inr squareResponse) \<Rightarrow>
          (case syncBookingWithBackend w (syncBookingData w bookingData)
                  (map_option SquareBooking.id' (booking squareResponse)) of
             (calls2, Inl error) \<Rightarrow> (calls1 @ calls2, Inl error)
           | (calls2, Inr backendResponse) \<Rightarrow>
               (calls1 @ calls2,
                case (truthy_json backendResponse, booking squareResponse) of
                  (False, Some b) \<Rightarrow>
                    (case syntheticResponse w b of
                       Inl error \<Rightarrow> Inl error
                     | Inr synthetic \<Rightarrow> Inr (JsonObject synthetic))
                | (True, _) \<Rightarrow> Inr backendResponse
                | (False, None) \<Rightarrow> Inl bothFailed)))"

subsection \<open>\<open>searchAvailability\<close>\<close>

text \<open>
  The arguments of \<open>fetch\<close> are evaluated first, so an invalid date throws before any
  request is made. Nothing here is wrapped in \<open>try\<close>: every failure rejects. The
  read \<open>data.data\<close> of line 268 throws on \<open>null\<close> only: on a boolean, a number,
  a string or an array, and on an object without the property, it is \<open>undefined\<close>
  (\<open>None\<close>), and the call fulfils with it.
\<close>

definition searchAvailability ::
  "world \<Rightarrow> string \<Rightarrow> Date \<Rightarrow> Date \<Rightarrow> AvailabilityResponse option promise" where
  "searchAvailability w variationId startDate endDate =
     (case Date_toISOString w startDate of
        Inl error \<Rightarrow> ([], Inl error)
      | Inr s \<Rightarrow>
          (case Date_toISOString w endDate of
             Inl error \<Rightarrow> ([], Inl error)
           | Inr e \<Rightarrow>
               (let url = api_url w @ ''/services/availability/search'';
                    body = \<lparr> AvailabilitySearchRequest.service_variation_id = variationId,
                             AvailabilitySearchRequest.start_at = s,
                             AvailabilitySearchRequest.end_at = e \<rparr>
                in ([AvailabilitySearchFetch url (bearer w) body],
                    case fetch_availability_search w url (bearer w) body of
                      NetworkFailure \<Rightarrow> Inl FetchRejected
                    | Response ok json \<Rightarrow>
                        if \<not> ok then Inl (Error ''Failed to fetch availability'')
                        else (case json of
                                Unparsable \<Rightarrow> Inl JsonSyntaxError
                              | Parsed JsonNull \<Rightarrow> Inl TypeError
                              | Parsed (JsonObject d) \<Rightarrow> Inr (AvailabilityEnvelope.data d)
                              | Parsed _ \<Rightarrow> Inr None)))))"

section \<open>Example worlds\<close>

text \<open>
  Concrete worlds for evaluating the service. Each endpoint gives one fixed answer to
  every request. The \<open>Date\<close> built-ins are given on the values the examples use:
  \<open>2025-06-01T10:00:00.000Z\<close> is 1748772000000 ms after the epoch, and no other
  string the examples parse (the empty string among them) is a date.
\<close>

definition example_Date_parse :: "string \<Rightarrow> int option" where
  "example_Date_parse = map_of [(''2025-06-01T10:00:00.000Z'', 1748772000000)]"

definition example_toISOString :: "int \<Rightarrow> string" where
  "example_toISOString t =
     (case map_of [(1748772000000 :: int, ''2025-06-01T10:00:00.000Z''),
                   (1748775600000, ''2025-06-01T11:00:00.000Z''),
                   (1748858400000, ''2025-06-02T10:00:00.000Z'')] t of
        Some s \<Rightarrow> s | None \<Rightarrow> [])"

definition example_world ::
  "SquareBookingResponse fetch_outcome \<Rightarrow> BookingResponse fetch_outcome \<Rightarrow>
   AvailabilityEnvelope fetch_outcome \<Rightarrow> world" where
  "example_world provider backend availability =
     \<lparr> randomUUID = ''0b8f6e2a-5c1d-4e7a-9f3b-2d6c8a1e4f70'',
       NEXT_PUBLIC_API_URL = Some ''https://api.example.test'',
       NEXT_PUBLIC_SQUARE_LOCATION_ID = Some ''LOC1'',
       token = None,
       square_customer_id = Some ''CUST1'',
       fetch_create_square_booking = (\<lambda>_. provider),
       fetch_bookings = (\<lambda>_ _ _. backend),
       fetch_availability_search = (\<lambda>_ _ _. availability),
       Date_parse = example_Date_parse,
       toISOString = example_toISOString \<rparr>"

definition example_request :: "string option \<Rightarrow> BookingRequest" where
  "example_request key =
     \<lparr> BookingRequest.service_variation_id = ''VAR1'',
       BookingRequest.team_member_id = ''TM1'',
       BookingRequest.start_at = ''2025-06-01T10:00:00.000Z'',
       BookingRequest.service_variation_version = None,
       customer_note = None,
       BookingRequest.idempotencyKey = key \<rparr>"

definition example_booking :: "string \<Rightarrow> SquareBooking" where
  "example_booking start =
     \<lparr> SquareBooking.id' = ''BK1'',
       SquareBooking.status = ''ACCEPTED'',
       SquareBooking.startAt = start,
       SquareBooking.locationId = ''LOC1'',
       SquareBooking.customerId = Some ''CUST1'',
       createdAt = ''2025-05-30T08:15:00.000Z'',
       version = ''0'' \<rparr>"

definition provider_response ::
  "bool \<Rightarrow> SquareBooking option \<Rightarrow> string option \<Rightarrow> SquareBookingResponse" where
  "provider_response ok b msg =
     \<lparr> success = ok, booking = b, SquareBookingResponse.message = msg,
       details = None, isRetry = None \<rparr>"

definition example_square_request :: SquareBookingRequest where
  "example_square_request =
     \<lparr> serviceVariationId = ''VAR1'',
       teamMemberId = ''TM1'',
       SquareBookingRequest.customerId = Some ''CUST1'',
       SquareBookingRequest.startAt = ''2025-06-01T10:00:00.000Z'',
       serviceVariationVersion = None,
       customerNote = None,
       SquareBookingRequest.idempotencyKey = ''key-1'',
       SquareBookingRequest.locationId = ''LOC1'' \<rparr>"

definition backend_response :: BookingResponse where
  "backend_response =
     \<lparr> BookingResponse.data =
         \<lparr> BookingResponseData.id' = 42,
           BookingResponseData.square_booking_id = ''BK1'',
           service_name = ''Skin fade'',
           BookingResponseData.start_at = ''2025-06-01T10:00:00.000Z'',
           BookingResponseData.end_at = ''2025-06-01T10:45:00.000Z'',
           BookingResponseData.status = ''ACCEPTED'' \<rparr>,
       status_code = 201,
       BookingResponse.message = ''Booking created'' \<rparr>"

definition availability_response :: AvailabilityEnvelope where
  "availability_response =
     \<lparr> AvailabilityEnvelope.data = Some \<lparr> availabilities_by_date = [], errors = [] \<rparr> \<rparr>"

text \<open>The provider answers HTTP 200 with \<open>success: false\<close>; the backend is never reached.\<close>

definition world_provider_refuses :: world where
  "world_provider_refuses =
     example_world (Response True (Parsed (JsonObject (provider_response False None (Some ''Slot taken'')))))
       NetworkFailure NetworkFailure"

text \<open>The provider answers with \<open>success: true\<close> and the booking \<open>b\<close> (or none); the
  backend answers as given.\<close>

definition world_provider_ok :: "SquareBooking option \<Rightarrow> BookingResponse fetch_outcome \<Rightarrow> world" where
  "world_provider_ok b backend =
     example_world (Response True (Parsed (JsonObject (provider_response True b None))))
       backend NetworkFailure"

definition world_availability :: "AvailabilityEnvelope fetch_outcome \<Rightarrow> world" where
  "world_availability availability = example_world NetworkFailure NetworkFailure availability"

lemmas example_defs =
  example_world_def example_request_def example_booking_def provider_response_def
  example_Date_parse_def example_toISOString_def world_provider_ok_def

lemmas service_defs =
  createSquareBooking_def createSquareBooking_try_def syncBookingWithBackend_def
  syncBookingWithBackend_try_def backendRequestData_def syncBookingData_def
  squareBookingRequest_def bookingIdempotencyKey_def or_string_def or_undefined_def truthy_def
  api_url_def bearer_def

section \<open>Shared lemmas\<close>

lemma createSquareBooking_calls:
  "fst (createSquareBooking w rq) = [CreateSquareBookingFetch rq]"
  by (simp add: createSquareBooking_def)

lemma syncBookingWithBackend_calls:
  "fst (syncBookingWithBackend w bd sid) =
     [BookingsFetch (api_url w @ ''/bookings'') (bearer w) (backendRequestData bd sid)]"
  by (simp add: syncBookingWithBackend_def)

lemma syncBookingWithBackend_fulfils:
  "\<exists>r. snd (syncBookingWithBackend w bd sid) = Inr r"
  by (simp add: syncBookingWithBackend_def split: sum.split)

lemma createBooking_unfold_failure:
  assumes "snd (createSquareBooking w (squareBookingRequest w bd)) = Inl e"
  shows "createBooking w bd = ([CreateSquareBookingFetch (squareBookingRequest w bd)], Inl e)"
  using assms createSquareBooking_calls [of w "squareBookingRequest w bd"]
  by (cases "createSquareBooking w (squareBookingRequest w bd)") (simp add: createBooking_def)

lemma createBooking_unfold_success:
  assumes "snd (createSquareBooking w (squareBookingRequest w bd)) = Inr sr"
    and "snd (syncBookingWithBackend w (syncBookingData w bd)
               (map_option SquareBooking.id' (booking sr))) = Inr br"
  shows "createBooking w bd =
     ([CreateSquareBookingFetch (squareBookingRequest w bd),
       BookingsFetch (api_url w @ ''/bookings'') (bearer w)
         (backendRequestData (syncBookingData w bd) (map_option SquareBooking.id' (booking sr)))],
      case (truthy_json br, booking sr) of
        (False, Some b) \<Rightarrow>
          (case syntheticResponse w b of
             Inl error \<Rightarrow> Inl error
           | Inr synthetic \<Rightarrow> Inr (JsonObject synthetic))
      | (True, _) \<Rightarrow> Inr br
      | (False, None) \<Rightarrow> Inl bothFailed)"
  using assms createSquareBooking_calls [of w "squareBookingRequest w bd"]
    syncBookingWithBackend_calls [of w "syncBookingData w bd" "map_option SquareBooking.id' (booking sr)"]
  by (cases "createSquareBooking w (squareBookingRequest w bd)";
      cases "syncBookingWithBackend w (syncBookingData w bd) (map_option SquareBooking.id' (booking sr))")
     (simp add: createBooking_def)

lemma syntheticResponse_valid:
  assumes "Date_parse w (SquareBooking.startAt b) = Some t"
    and "\<bar>t + 3600000\<bar> \<le> 8640000000000000"
  shows "syntheticResponse w b =
     Inr \<lparr> BookingResponse.data =
             \<lparr> BookingResponseData.id' = 0,
               BookingResponseData.square_booking_id = SquareBooking.id' b,
               service_name = ''Your appointment'',
               BookingResponseData.start_at = SquareBooking.startAt b,
               BookingResponseData.end_at = toISOString w (t + 3600000),
               BookingResponseData.status = or_string (Some (SquareBooking.status b)) ''ACCEPTED'' \<rparr>,
           status_code = 200,
           BookingResponse.message = ''Booking created in Square but not yet synced with backend'' \<rparr>"
  using assms by (simp add: syntheticResponse_def Date_of_number_def Date_toISOString_def)


lemma provider_refuses_result:
  "snd (createSquareBooking world_provider_refuses
          (squareBookingRequest world_provider_refuses bd)) = Inl (Error ''Slot taken'')"
  by (simp add: service_defs example_defs world_provider_refuses_def)

lemma provider_ok_result:
  "snd (createSquareBooking (world_provider_ok b backend)
          (squareBookingRequest (world_provider_ok b backend) bd))
     = Inr (provider_response True b None)"
  by (simp add: service_defs example_defs)

lemma provider_ok_sync_down:
  "snd (syncBookingWithBackend (world_provider_ok b NetworkFailure) bd sid) = Inr JsonNull"
  by (simp add: service_defs example_defs)

lemma provider_ok_sync_answer:
  "snd (syncBookingWithBackend (world_provider_ok b (Response ok (Parsed v))) bd sid)
     = Inr (if ok then v else JsonNull)"
  by (simp add: service_defs example_defs)

section \<open>\<open>createBooking\<close>: provider failure\<close>

text \<open>
  C1. For every booking request, if the provider booking-creation call
  (\<open>createSquareBooking\<close>) fails, \<open>createBooking\<close> rejects with that failure and the
  backend sync call is never invoked: the only request made is the one to the provider.
\<close>

theorem createBooking_provider_failure:
  assumes "snd (createSquareBooking w (squareBookingRequest w bd)) = Inl e"
  shows "snd (createBooking w bd) = Inl e
       \<and> fst (createBooking w bd) = [CreateSquareBookingFetch (squareBookingRequest w bd)]
       \<and> (\<forall>url auth body. BookingsFetch url auth body \<notin> set (fst (createBooking w bd)))"
  using createBooking_unfold_failure [OF assms] by simp

text \<open>C1 at a provider that answers HTTP 200 with \<open>success: false\<close>.\<close>

theorem createBooking_provider_failure_witness:
  "snd (createSquareBooking world_provider_refuses
          (squareBookingRequest world_provider_refuses (example_request None)))
     = Inl (Error ''Slot taken'')
   \<and> snd (createBooking world_provider_refuses (example_request None)) = Inl (Error ''Slot taken'')
   \<and> fst (createBooking world_provider_refuses (example_request None))
       = [CreateSquareBookingFetch (squareBookingRequest world_provider_refuses (example_request None))]"
  using createBooking_provider_failure [OF provider_refuses_result, of "example_request None"]
    provider_refuses_result [of "example_request None"]
  by simp

section \<open>\<open>createBooking\<close>: the synthetic response\<close>

text \<open>
  C2, as the code has it. If the provider call succeeds with a booking object, the backend
  sync returns \<open>null\<close>, the booking's \<open>startAt\<close> parses to a time value and that
  value plus 3600000 ms is still a valid time value, then \<open>createBooking\<close> returns a
  response with \<open>status_code\<close> 200, \<open>data.id\<close> 0 and \<open>data.end_at\<close> the ISO text of
  the start plus exactly 3600000 ms.
\<close>

theorem createBooking_synthetic:
  assumes "snd (createSquareBooking w (squareBookingRequest w bd)) = Inr sr"
    and "booking sr = Some b"
    and "snd (syncBookingWithBackend w (syncBookingData w bd) (Some (SquareBooking.id' b))) = Inr JsonNull"
    and "Date_parse w (SquareBooking.startAt b) = Some t"
    and "\<bar>t + 3600000\<bar> \<le> 8640000000000000"
  shows "\<exists>r. snd (createBooking w bd) = Inr (JsonObject r)
           \<and> status_code r = 200
           \<and> BookingResponseData.id' (BookingResponse.data r) = 0
           \<and> BookingResponseData.end_at (BookingResponse.data r) = toISOString w (t + 3600000)"
proof -
  from assms(2,3) have sync: "snd (syncBookingWithBackend w (syncBookingData w bd)
      (map_option SquareBooking.id' (booking sr))) = Inr JsonNull"
    by simp
  show ?thesis
    using createBooking_unfold_success [OF assms(1) sync] assms(2)
      syntheticResponse_valid [OF assms(4,5)]
    by simp
qed

text \<open>
  C2 at a booking that starts at 10:00 with the backend unreachable: the response ends
  at 11:00.
\<close>

theorem createBooking_synthetic_witness:
  "\<exists>r. snd (createBooking
            (world_provider_ok (Some (example_booking ''2025-06-01T10:00:00.000Z'')) NetworkFailure)
            (example_request None)) = Inr (JsonObject r)
     \<and> status_code r = 200
     \<and> BookingResponseData.id' (BookingResponse.data r) = 0
     \<and> BookingResponseData.end_at (BookingResponse.data r) = ''2025-06-01T11:00:00.000Z''"
proof -
  let ?b = "example_booking ''2025-06-01T10:00:00.000Z''"
  let ?w = "world_provider_ok (Some ?b) NetworkFailure"
  have b: "booking (provider_response True (Some ?b) None) = Some ?b"
    by (simp add: provider_response_def)
  have t: "Date_parse ?w (SquareBooking.startAt ?b) = Some 1748772000000"
    by (simp add: example_defs)
  have range: "\<bar>(1748772000000 :: int) + 3600000\<bar> \<le> 8640000000000000"
    by simp
  have iso: "toISOString ?w (1748772000000 + 3600000) = ''2025-06-01T11:00:00.000Z''"
    by (simp add: example_defs)
  show ?thesis
    using createBooking_synthetic [OF provider_ok_result b provider_ok_sync_down t range,
        of "example_request None"] iso
    by simp
qed

text \<open>
  C2 as stated fails where the booking's \<open>startAt\<close> is not a date: the provider call
  succeeds with a booking object, the sync returns \<open>null\<close>, and \<open>createBooking\<close>
  rejects with the \<open>RangeError\<close> of \<open>toISOString\<close>.
\<close>

theorem createBooking_synthetic_counterexample:
  "snd (createSquareBooking (world_provider_ok (Some (example_booking [])) NetworkFailure)
          (squareBookingRequest (world_provider_ok (Some (example_booking [])) NetworkFailure)
             (example_request None)))
     = Inr (provider_response True (Some (example_booking [])) None)
   \<and> snd (syncBookingWithBackend (world_provider_ok (Some (example_booking [])) NetworkFailure)
          (syncBookingData (world_provider_ok (Some (example_booking [])) NetworkFailure)
             (example_request None))
          (Some (SquareBooking.id' (example_booking [])))) = Inr JsonNull
   \<and> snd (createBooking (world_provider_ok (Some (example_booking [])) NetworkFailure)
          (example_request None)) = Inl RangeError"
proof -
  let ?w = "world_provider_ok (Some (example_booking [])) NetworkFailure"
  have sync: "snd (syncBookingWithBackend ?w (syncBookingData ?w (example_request None))
      (map_option SquareBooking.id' (booking (provider_response True (Some (example_booking [])) None))))
      = Inr JsonNull"
    by (rule provider_ok_sync_down)
  have "syntheticResponse ?w (example_booking []) = Inl RangeError"
    by (simp add: syntheticResponse_def Date_of_number_def Date_toISOString_def example_defs)
  then show ?thesis
    using createBooking_unfold_success [OF provider_ok_result sync] provider_ok_result
      provider_ok_sync_down
    by (simp add: provider_response_def)
qed

section \<open>\<open>createBooking\<close>: the backend's response\<close>

text \<open>
  C3, as the code has it. For every booking request, if the provider call succeeds and
  the backend sync returns a truthy value (every object is one; \<open>null\<close>, \<open>false\<close>,
  zero and the empty string are not), \<open>createBooking\<close> returns exactly that value,
  unmodified.
\<close>

theorem createBooking_backend_response:
  assumes "snd (createSquareBooking w (squareBookingRequest w bd)) = Inr sr"
    and "snd (syncBookingWithBackend w (syncBookingData w bd)
               (map_option SquareBooking.id' (booking sr))) = Inr r"
    and "truthy_json r"
  shows "snd (createBooking w bd) = Inr r"
  using createBooking_unfold_success [OF assms(1,2)] assms(3) by simp

text \<open>C3 at a backend that answers 2xx with a booking record.\<close>

theorem createBooking_backend_response_witness:
  "snd (syncBookingWithBackend
          (world_provider_ok (Some (example_booking ''2025-06-01T10:00:00.000Z''))
             (Response True (Parsed (JsonObject backend_response))))
          (syncBookingData
             (world_provider_ok (Some (example_booking ''2025-06-01T10:00:00.000Z''))
                (Response True (Parsed (JsonObject backend_response))))
             (example_request None))
          (Some ''BK1'')) = Inr (JsonObject backend_response)
   \<and> truthy_json (JsonObject backend_response)
   \<and> snd (createBooking
          (world_provider_ok (Some (example_booking ''2025-06-01T10:00:00.000Z''))
             (Response True (Parsed (JsonObject backend_response))))
          (example_request None)) = Inr (JsonObject backend_response)"
proof -
  let ?w = "world_provider_ok (Some (example_booking ''2025-06-01T10:00:00.000Z''))
             (Response True (Parsed (JsonObject backend_response)))"
  have sync: "snd (syncBookingWithBackend ?w (syncBookingData ?w (example_request None))
      (map_option SquareBooking.id'
         (booking (provider_response True (Some (example_booking ''2025-06-01T10:00:00.000Z'')) None))))
      = Inr (JsonObject backend_response)"
    by (simp add: provider_ok_sync_answer)
  have truthy: "truthy_json (JsonObject backend_response)"
    by simp
  show ?thesis
    using createBooking_backend_response [OF provider_ok_result sync truthy]
      provider_ok_sync_answer [of "Some (example_booking ''2025-06-01T10:00:00.000Z'')" True
        "JsonObject backend_response"]
    by simp
qed

text \<open>
  C3 as stated fails at a backend that answers 2xx with the body \<open>0\<close>: the sync returns
  the parsed \<open>0\<close>, which is not \<open>null\<close>, and \<open>createBooking\<close> returns the synthetic
  response built from the provider's booking, not the backend's response.
\<close>

theorem createBooking_backend_response_counterexample:
  "snd (createSquareBooking
          (world_provider_ok (Some (example_booking ''2025-06-01T10:00:00.000Z''))
             (Response True (Parsed (JsonNumber (Finite 0)))))
          (squareBookingRequest
             (world_provider_ok (Some (example_booking ''2025-06-01T10:00:00.000Z''))
                (Response True (Parsed (JsonNumber (Finite 0)))))
             (example_request None)))
     = Inr (provider_response True (Some (example_booking ''2025-06-01T10:00:00.000Z'')) None)
   \<and> snd (syncBookingWithBackend
          (world_provider_ok (Some (example_booking ''2025-06-01T10:00:00.000Z''))
             (Response True (Parsed (JsonNumber (Finite 0)))))
          (syncBookingData
             (world_provider_ok (Some (example_booking ''2025-06-01T10:00:00.000Z''))
                (Response True (Parsed (JsonNumber (Finite 0)))))
             (example_request None))
          (Some ''BK1'')) = Inr (JsonNumber (Finite 0))
   \<and> JsonNumber (Finite 0) \<noteq> (JsonNull :: BookingResponse json)
   \<and> snd (createBooking
          (world_provider_ok (Some (example_booking ''2025-06-01T10:00:00.000Z''))
             (Response True (Parsed (JsonNumber (Finite 0)))))
          (example_request None))
     = Inr (JsonObject
         \<lparr> BookingResponse.data =
             \<lparr> BookingResponseData.id' = 0,
               BookingResponseData.square_booking_id = ''BK1'',
               service_name = ''Your appointment'',
               BookingResponseData.start_at = ''2025-06-01T10:00:00.000Z'',
               BookingResponseData.end_at = ''2025-06-01T11:00:00.000Z'',
               BookingResponseData.status = ''ACCEPTED'' \<rparr>,
           status_code = 200,
           BookingResponse.message = ''Booking created in Square but not yet synced with backend'' \<rparr>)
   \<and> snd (createBooking
          (world_provider_ok (Some (example_booking ''2025-06-01T10:00:00.000Z''))
             (Response True (Parsed (JsonNumber (Finite 0)))))
          (example_request None))
     \<noteq> Inr (JsonNumber (Finite 0))"
proof -
  let ?b = "example_booking ''2025-06-01T10:00:00.000Z''"
  let ?w = "world_provider_ok (Some ?b) (Response True (Parsed (JsonNumber (Finite 0))))"
  have sync: "snd (syncBookingWithBackend ?w (syncBookingData ?w (example_request None))
      (map_option SquareBooking.id' (booking (provider_response True (Some ?b) None))))
      = Inr (JsonNumber (Finite 0))"
    by (simp add: provider_ok_sync_answer)
  have t: "Date_parse ?w (SquareBooking.startAt ?b) = Some 1748772000000"
    by (simp add: example_defs)
  have range: "\<bar>(1748772000000 :: int) + 3600000\<bar> \<le> 8640000000000000"
    by simp
  have iso: "toISOString ?w (1748772000000 + 3600000) = ''2025-06-01T11:00:00.000Z''"
    by (simp add: example_defs)
  show ?thesis
    using createBooking_unfold_success [OF provider_ok_result sync]
      syntheticResponse_valid [OF t range] iso provider_ok_result
      provider_ok_sync_answer [of "Some ?b" True "JsonNumber (Finite 0)"]
    by (simp add: provider_response_def example_booking_def or_string_def)
qed

section \<open>\<open>createBooking\<close>: one idempotency key for both calls\<close>

text \<open>
  C4, as the code has it. For every booking request whose provider call succeeds, the
  backend sync is attempted right after it, and the idempotency key in the sync request
  equals the key passed to the provider: the caller's \<open>idempotencyKey\<close> when it is
  present and not the empty string, otherwise the one value of \<open>crypto.randomUUID()\<close>.
\<close>

theorem createBooking_same_key:
  assumes "snd (createSquareBooking w (squareBookingRequest w bd)) = Inr sr"
  shows "\<exists>url auth body.
           fst (createBooking w bd) =
             [CreateSquareBookingFetch (squareBookingRequest w bd), BookingsFetch url auth body]
         \<and> BookingRequest.idempotencyKey (booking_request body) =
             Some (SquareBookingRequest.idempotencyKey (squareBookingRequest w bd))
         \<and> SquareBookingRequest.idempotencyKey (squareBookingRequest w bd) =
             (case BookingRequest.idempotencyKey bd of
                None \<Rightarrow> randomUUID w
              | Some k \<Rightarrow> if k = [] then randomUUID w else k)"
proof -
  obtain br where sync: "snd (syncBookingWithBackend w (syncBookingData w bd)
      (map_option SquareBooking.id' (booking sr))) = Inr br"
    using syncBookingWithBackend_fulfils by blast
  show ?thesis
    using createBooking_unfold_success [OF assms sync]
    by (simp add: backendRequestData_def syncBookingData_def squareBookingRequest_def
        bookingIdempotencyKey_def or_string_def split: option.split)
qed

text \<open>C4 at a request that brings its own key \<open>key-1\<close>: both requests carry it.\<close>

theorem createBooking_same_key_witness:
  "\<exists>url auth body.
     fst (createBooking (world_provider_ok None NetworkFailure) (example_request (Some ''key-1''))) =
       [CreateSquareBookingFetch
          (squareBookingRequest (world_provider_ok None NetworkFailure) (example_request (Some ''key-1''))),
        BookingsFetch url auth body]
   \<and> BookingRequest.idempotencyKey (booking_request body) = Some ''key-1''
   \<and> SquareBookingRequest.idempotencyKey
        (squareBookingRequest (world_provider_ok None NetworkFailure) (example_request (Some ''key-1'')))
       = ''key-1''"
proof -
  let ?w = "world_provider_ok None NetworkFailure"
  let ?bd = "example_request (Some ''key-1'')"
  have key: "(case BookingRequest.idempotencyKey ?bd of
                None \<Rightarrow> randomUUID ?w
              | Some k \<Rightarrow> if k = [] then randomUUID ?w else k) = ''key-1''"
    by (simp add: example_request_def)
  from createBooking_same_key [OF provider_ok_result, of None NetworkFailure ?bd]
  obtain url auth body where
    "fst (createBooking ?w ?bd) =
       [CreateSquareBookingFetch (squareBookingRequest ?w ?bd), BookingsFetch url auth body]"
    "BookingRequest.idempotencyKey (booking_request body) =
       Some (SquareBookingRequest.idempotencyKey (squareBookingRequest ?w ?bd))"
    "SquareBookingRequest.idempotencyKey (squareBookingRequest ?w ?bd) = ''key-1''"
    unfolding key by blast
  then show ?thesis by simp
qed

text \<open>
  C4 as stated fails at a caller-supplied key that is the empty string: the key is
  present, the provider call succeeds, and the key sent to the provider is the fresh
  UUID, not the caller's.
\<close>

theorem createBooking_same_key_counterexample:
  "BookingRequest.idempotencyKey (example_request (Some [])) = Some []
   \<and> snd (createSquareBooking (world_provider_ok None NetworkFailure)
          (squareBookingRequest (world_provider_ok None NetworkFailure) (example_request (Some []))))
      = Inr (provider_response True None None)
   \<and> SquareBookingRequest.idempotencyKey
        (squareBookingRequest (world_provider_ok None NetworkFailure) (example_request (Some [])))
      = ''0b8f6e2a-5c1d-4e7a-9f3b-2d6c8a1e4f70''
   \<and> SquareBookingRequest.idempotencyKey
        (squareBookingRequest (world_provider_ok None NetworkFailure) (example_request (Some [])))
      \<noteq> []"
  using provider_ok_result [of None NetworkFailure "example_request (Some [])"]
  by (simp add: squareBookingRequest_def bookingIdempotencyKey_def or_string_def example_defs)

section \<open>\<open>createBooking\<close>: when a provider-side booking is answered with a result\<close>

text \<open>
  C5, as the code has it. For every booking request whose provider call succeeds, the sync
  is attempted and \<open>createBooking\<close> does not reject, provided that, whenever the sync
  result is falsy (\<open>null\<close>, or a 2xx body that is \<open>false\<close>, zero or the empty
  string), the provider's response carries a booking object whose \<open>startAt\<close> is a
  valid date with a valid date one hour later. \<open>createBooking\<close> then returns the sync
  result itself when it is truthy, and otherwise the synthetic result built from the
  provider's booking.
\<close>

theorem createBooking_fulfils:
  assumes "snd (createSquareBooking w (squareBookingRequest w bd)) = Inr sr"
    and "snd (syncBookingWithBackend w (syncBookingData w bd)
               (map_option SquareBooking.id' (booking sr))) = Inr v"
    and "\<not> truthy_json v
         \<longrightarrow> (\<exists>b t. booking sr = Some b \<and> Date_parse w (SquareBooking.startAt b) = Some t
                   \<and> \<bar>t + 3600000\<bar> \<le> 8640000000000000)"
  shows "fst (createBooking w bd) =
           [CreateSquareBookingFetch (squareBookingRequest w bd),
            BookingsFetch (api_url w @ ''/bookings'') (bearer w)
              (backendRequestData (syncBookingData w bd)
                 (map_option SquareBooking.id' (booking sr)))]
       \<and> (truthy_json v \<longrightarrow> snd (createBooking w bd) = Inr v)
       \<and> (\<not> truthy_json v \<longrightarrow>
            (\<exists>b t. booking sr = Some b \<and> Date_parse w (SquareBooking.startAt b) = Some t
               \<and> snd (createBooking w bd) =
                   Inr (JsonObject
                     \<lparr> BookingResponse.data =
                         \<lparr> BookingResponseData.id' = 0,
                           BookingResponseData.square_booking_id = SquareBooking.id' b,
                           service_name = ''Your appointment'',
                           BookingResponseData.start_at = SquareBooking.startAt b,
                           BookingResponseData.end_at = toISOString w (t + 3600000),
                           BookingResponseData.status =
                             or_string (Some (SquareBooking.status b)) ''ACCEPTED'' \<rparr>,
                       status_code = 200,
                       BookingResponse.message =
                         ''Booking created in Square but not yet synced with backend'' \<rparr>)))"
proof (intro conjI impI)
  show "fst (createBooking w bd) =
           [CreateSquareBookingFetch (squareBookingRequest w bd),
            BookingsFetch (api_url w @ ''/bookings'') (bearer w)
              (backendRequestData (syncBookingData w bd)
                 (map_option SquareBooking.id' (booking sr)))]"
    using createBooking_unfold_success [OF assms(1,2)] by simp
next
  assume "truthy_json v"
  then show "snd (createBooking w bd) = Inr v"
    using createBooking_unfold_success [OF assms(1,2)] by simp
next
  assume falsy: "\<not> truthy_json v"
  with assms(3) obtain b t where b: "booking sr = Some b"
    and t: "Date_parse w (SquareBooking.startAt b) = Some t" "\<bar>t + 3600000\<bar> \<le> 8640000000000000"
    by blast
  have "snd (createBooking w bd) =
          Inr (JsonObject
            \<lparr> BookingResponse.data =
                \<lparr> BookingResponseData.id' = 0,
                  BookingResponseData.square_booking_id = SquareBooking.id' b,
                  service_name = ''Your appointment'',
                  BookingResponseData.start_at = SquareBooking.startAt b,
                  BookingResponseData.end_at = toISOString w (t + 3600000),
                  BookingResponseData.status =
                    or_string (Some (SquareBooking.status b)) ''ACCEPTED'' \<rparr>,
              status_code = 200,
              BookingResponse.message =
                ''Booking created in Square but not yet synced with backend'' \<rparr>)"
    using createBooking_unfold_success [OF assms(1,2)] falsy b syntheticResponse_valid [OF t]
    by simp
  with b t(1) show "\<exists>b t. booking sr = Some b \<and> Date_parse w (SquareBooking.startAt b) = Some t
               \<and> snd (createBooking w bd) =
                   Inr (JsonObject
                     \<lparr> BookingResponse.data =
                         \<lparr> BookingResponseData.id' = 0,
                           BookingResponseData.square_booking_id = SquareBooking.id' b,
                           service_name = ''Your appointment'',
                           BookingResponseData.start_at = SquareBooking.startAt b,
                           BookingResponseData.end_at = toISOString w (t + 3600000),
                           BookingResponseData.status =
                             or_string (Some (SquareBooking.status b)) ''ACCEPTED'' \<rparr>,
                       status_code = 200,
                       BookingResponse.message =
                         ''Booking created in Square but not yet synced with backend'' \<rparr>)"
    by blast
qed

text \<open>
  C5 at a backend that answers HTTP 500 after the provider booked the 10:00 slot: the
  sync result is \<open>null\<close> and the synthetic result, ending at 11:00, is returned.
\<close>

theorem createBooking_fulfils_witness:
  "snd (syncBookingWithBackend
          (world_provider_ok (Some (example_booking ''2025-06-01T10:00:00.000Z''))
             (Response False (Parsed JsonNull)))
          (syncBookingData
             (world_provider_ok (Some (example_booking ''2025-06-01T10:00:00.000Z''))
                (Response False (Parsed JsonNull)))
             (example_request None))
          (Some ''BK1'')) = Inr JsonNull
   \<and> snd (createBooking
          (world_provider_ok (Some (example_booking ''2025-06-01T10:00:00.000Z''))
             (Response False (Parsed JsonNull)))
          (example_request None))
     = Inr (JsonObject
         \<lparr> BookingResponse.data =
             \<lparr> BookingResponseData.id' = 0,
               BookingResponseData.square_booking_id = ''BK1'',
               service_name = ''Your appointment'',
               BookingResponseData.start_at = ''2025-06-01T10:00:00.000Z'',
               BookingResponseData.end_at = ''2025-06-01T11:00:00.000Z'',
               BookingResponseData.status = ''ACCEPTED'' \<rparr>,
           status_code = 200,
           BookingResponse.message = ''Booking created in Square but not yet synced with backend'' \<rparr>)"
proof -
  let ?b = "example_booking ''2025-06-01T10:00:00.000Z''"
  let ?w = "world_provider_ok (Some ?b) (Response False (Parsed JsonNull))"
  have sync: "snd (syncBookingWithBackend ?w (syncBookingData ?w (example_request None))
               (map_option SquareBooking.id' (booking (provider_response True (Some ?b) None))))
             = Inr JsonNull"
    by (simp add: provider_ok_sync_answer)
  have h: "\<not> truthy_json (JsonNull :: BookingResponse json)
         \<longrightarrow> (\<exists>b t. booking (provider_response True (Some ?b) None) = Some b
                   \<and> Date_parse ?w (SquareBooking.startAt b) = Some t
                   \<and> \<bar>t + 3600000\<bar> \<le> 8640000000000000)"
    by (simp add: example_defs)
  have falsy: "\<not> truthy_json (JsonNull :: BookingResponse json)"
    by simp
  from createBooking_fulfils [OF provider_ok_result sync h] falsy
  obtain b t where b: "booking (provider_response True (Some ?b) None) = Some b"
    and t: "Date_parse ?w (SquareBooking.startAt b) = Some t"
    and r: "snd (createBooking ?w (example_request None)) =
              Inr (JsonObject
                \<lparr> BookingResponse.data =
                    \<lparr> BookingResponseData.id' = 0,
                      BookingResponseData.square_booking_id = SquareBooking.id' b,
                      service_name = ''Your appointment'',
                      BookingResponseData.start_at = SquareBooking.startAt b,
                      BookingResponseData.end_at = toISOString ?w (t + 3600000),
                      BookingResponseData.status =
                        or_string (Some (SquareBooking.status b)) ''ACCEPTED'' \<rparr>,
                  status_code = 200,
                  BookingResponse.message =
                    ''Booking created in Square but not yet synced with backend'' \<rparr>)"
    by blast
  from b have b': "b = ?b"
    by (simp add: provider_response_def)
  from t b' have t': "t = 1748772000000"
    by (simp add: example_defs)
  show ?thesis
    using r sync unfolding b' t'
    by (simp add: example_defs or_string_def)
qed

text \<open>
  C5 as stated fails where the provider's successful response carries no booking object
  and the backend answers HTTP 500: \<open>createBooking\<close> rejects.
\<close>

theorem createBooking_fulfils_counterexample:
  "snd (createSquareBooking (world_provider_ok None (Response False (Parsed JsonNull)))
          (squareBookingRequest (world_provider_ok None (Response False (Parsed JsonNull)))
             (example_request None)))
     = Inr (provider_response True None None)
   \<and> snd (createBooking (world_provider_ok None (Response False (Parsed JsonNull)))
          (example_request None))
     = Inl (Error ''Failed to create booking in both Square and backend systems'')"
proof -
  let ?w = "world_provider_ok None (Response False (Parsed JsonNull))"
  have sync: "snd (syncBookingWithBackend ?w (syncBookingData ?w (example_request None))
      (map_option SquareBooking.id' (booking (provider_response True None None)))) = Inr JsonNull"
    by (simp add: provider_ok_sync_answer)
  show ?thesis
    using createBooking_unfold_success [OF provider_ok_result sync] provider_ok_result
    by (simp add: provider_response_def bothFailed_def)
qed

section \<open>\<open>createBooking\<close>: the terminal error\<close>




section \<open>\<open>searchAvailability\<close>\<close>

text \<open>
  C7. For every availability search, a non-success HTTP response from the backend to the
  request the search sent makes the call reject with the error
  \<open>Failed to fetch availability\<close>; no value is returned.
\<close>

theorem searchAvailability_non_ok:
  assumes "fst (searchAvailability w v startDate endDate) = [AvailabilitySearchFetch url auth body]"
    and "fetch_availability_search w url auth body = Response False json"
  shows "snd (searchAvailability w v startDate endDate) = Inl (Error ''Failed to fetch availability'')"
  using assms
  by (auto simp: searchAvailability_def Let_def split: sum.splits)

text \<open>C7 at a backend that answers HTTP 500 with a JSON body.\<close>

theorem searchAvailability_non_ok_witness:
  "fst (searchAvailability
          (world_availability (Response False (Parsed (JsonObject availability_response))))
          ''VAR1'' (Some 1748772000000) (Some 1748858400000))
     = [AvailabilitySearchFetch ''https://api.example.test/services/availability/search''
          ''Bearer null''
          \<lparr> AvailabilitySearchRequest.service_variation_id = ''VAR1'',
            AvailabilitySearchRequest.start_at = ''2025-06-01T10:00:00.000Z'',
            AvailabilitySearchRequest.end_at = ''2025-06-02T10:00:00.000Z'' \<rparr>]
   \<and> snd (searchAvailability
          (world_availability (Response False (Parsed (JsonObject availability_response))))
          ''VAR1'' (Some 1748772000000) (Some 1748858400000))
     = Inl (Error ''Failed to fetch availability'')"
proof -
  let ?w = "world_availability (Response False (Parsed (JsonObject availability_response)))"
  let ?body = "\<lparr> AvailabilitySearchRequest.service_variation_id = ''VAR1'',
            AvailabilitySearchRequest.start_at = ''2025-06-01T10:00:00.000Z'',
            AvailabilitySearchRequest.end_at = ''2025-06-02T10:00:00.000Z'' \<rparr>"
  have calls: "fst (searchAvailability ?w ''VAR1'' (Some 1748772000000) (Some 1748858400000))
     = [AvailabilitySearchFetch ''https://api.example.test/services/availability/search''
          ''Bearer null'' ?body]"
    by (simp add: searchAvailability_def Let_def Date_toISOString_def api_url_def bearer_def
        or_string_def world_availability_def example_world_def example_toISOString_def)
  have answer: "fetch_availability_search ?w ''https://api.example.test/services/availability/search''
      ''Bearer null'' ?body = Response False (Parsed (JsonObject availability_response))"
    by (simp add: world_availability_def example_world_def)
  from searchAvailability_non_ok [OF calls answer] calls show ?thesis by simp
qed

text \<open>
  C8, as the code has it. For a call to \<open>searchAvailability\<close> whose start date is
  strictly after its end date, the function compares nothing: the request goes out with
  both dates as given, and the call returns an error unless the backend answers with a
  success response whose body parses to a value other than \<open>null\<close>; when that value is
  a JSON object, the call returns the object's \<open>data\<close> instead of an error.
\<close>

theorem searchAvailability_start_after_end:
  assumes "e < s"
  shows "\<exists>url auth body.
           fst (searchAvailability w v (Some s) (Some e)) = [AvailabilitySearchFetch url auth body]
         \<and> AvailabilitySearchRequest.start_at body = toISOString w s
         \<and> AvailabilitySearchRequest.end_at body = toISOString w e
         \<and> (\<not> (\<exists>x. fetch_availability_search w url auth body = Response True (Parsed x)
                     \<and> x \<noteq> JsonNull)
              \<longrightarrow> (\<exists>err. snd (searchAvailability w v (Some s) (Some e)) = Inl err))
         \<and> (\<forall>d. fetch_availability_search w url auth body = Response True (Parsed (JsonObject d))
                \<longrightarrow> snd (searchAvailability w v (Some s) (Some e)) = Inr (AvailabilityEnvelope.data d))"
  by (auto simp: searchAvailability_def Let_def Date_toISOString_def
      split: fetch_outcome.splits body.splits json.splits)

text \<open>C8 at a search from 2 June back to 1 June against a backend that cannot be reached.\<close>

theorem searchAvailability_start_after_end_witness:
  "(1748772000000 :: int) < 1748858400000
   \<and> (\<exists>err. snd (searchAvailability (world_availability NetworkFailure)
                  ''VAR1'' (Some 1748858400000) (Some 1748772000000)) = Inl err)"
proof -
  have order: "(1748772000000 :: int) < 1748858400000"
    by simp
  have "\<forall>url auth body x. fetch_availability_search (world_availability NetworkFailure) url auth body
      \<noteq> Response True (Parsed x)"
    by (simp add: world_availability_def example_world_def)
  then show ?thesis
    using searchAvailability_start_after_end [OF order, of "world_availability NetworkFailure" "''VAR1''"]
      order
    by blast
qed

text \<open>
  C8 as stated fails: the start date is strictly after the end date, the backend answers
  with a success response, and the call returns the payload instead of an error.
\<close>

theorem searchAvailability_start_after_end_counterexample:
  "(1748772000000 :: int) < 1748858400000
   \<and> snd (searchAvailability
          (world_availability (Response True (Parsed (JsonObject availability_response))))
          ''VAR1'' (Some 1748858400000) (Some 1748772000000))
     = Inr (Some \<lparr> availabilities_by_date = [], errors = [] \<rparr>)"
  by (simp add: searchAvailability_def Let_def Date_toISOString_def
      world_availability_def example_world_def availability_response_def)

section \<open>\<open>syncBookingWithBackend\<close> and \<open>createSquareBooking\<close>\<close>

text \<open>
  C9. \<open>syncBookingWithBackend\<close> never rejects: for every booking request, optional
  Square booking id and every outcome of the request, it returns the parsed body when the
  response is ok (whatever JSON value that body is), and \<open>null\<close> in every other case: a
  response that is not ok, a network failure, a body that does not parse.
\<close>

theorem syncBookingWithBackend_total:
  "snd (syncBookingWithBackend w bd sid) =
     (case fetch_bookings w (api_url w @ ''/bookings'') (bearer w) (backendRequestData bd sid) of
        NetworkFailure \<Rightarrow> Inr JsonNull
      | Response ok Unparsable \<Rightarrow> Inr JsonNull
      | Response ok (Parsed d) \<Rightarrow> if ok then Inr d else Inr JsonNull)"
  by (simp add: syncBookingWithBackend_def syncBookingWithBackend_try_def
      split: fetch_outcome.split body.split)

text \<open>C9 at a backend that answers HTTP 500 with a well-formed booking record.\<close>

theorem syncBookingWithBackend_total_witness:
  "snd (syncBookingWithBackend
          (world_provider_ok None (Response False (Parsed (JsonObject backend_response))))
          (example_request None) (Some ''BK1'')) = Inr JsonNull"
  using syncBookingWithBackend_total
    [of "world_provider_ok None (Response False (Parsed (JsonObject backend_response)))"
        "example_request None" "Some ''BK1''"]
  by (simp add: world_provider_ok_def example_world_def)

text \<open>
  C10. \<open>createSquareBooking\<close> rejects whenever the response is not ok, and whenever the
  parsed body's \<open>success\<close> is false, also under HTTP 200 (with the body's message, or
  the default one, as the error); it returns the parsed body exactly when the response is
  ok and \<open>success\<close> is true, whether or not the body has a booking object.
\<close>

theorem createSquareBooking_rejects_or_returns:
  "(fetch_create_square_booking w rq = Response False body
      \<longrightarrow> (\<exists>e. snd (createSquareBooking w rq) = Inl e))
   \<and> (fetch_create_square_booking w rq = Response ok (Parsed (JsonObject d))
        \<and> (\<not> ok \<or> \<not> success d)
      \<longrightarrow> snd (createSquareBooking w rq) =
            Inl (Error (or_string (SquareBookingResponse.message d) ''Failed to create Square booking'')))
   \<and> (snd (createSquareBooking w rq) = Inr d'
        \<longleftrightarrow> fetch_create_square_booking w rq = Response True (Parsed (JsonObject d')) \<and> success d')"
  by (auto simp: createSquareBooking_def createSquareBooking_try_def
      split: fetch_outcome.splits body.splits json.splits if_splits)

text \<open>
  C10 at HTTP 200 with \<open>success: false\<close> and no message (rejected with the default
  message), and at HTTP 200 with \<open>success: true\<close> and no booking object (returned).
\<close>

theorem createSquareBooking_rejects_or_returns_witness:
  "snd (createSquareBooking
          (example_world (Response True (Parsed (JsonObject (provider_response False None None))))
             NetworkFailure NetworkFailure)
          example_square_request)
     = Inl (Error ''Failed to create Square booking'')
   \<and> snd (createSquareBooking
          (example_world (Response True (Parsed (JsonObject (provider_response True None None))))
             NetworkFailure NetworkFailure)
          example_square_request)
     = Inr (provider_response True None None)"
proof -
  let ?rq = example_square_request
  let ?no = "provider_response False None None"
  let ?yes = "provider_response True None None"
  let ?w1 = "example_world (Response True (Parsed (JsonObject ?no))) NetworkFailure NetworkFailure"
  let ?w2 = "example_world (Response True (Parsed (JsonObject ?yes))) NetworkFailure NetworkFailure"
  have h1: "fetch_create_square_booking ?w1 ?rq = Response True (Parsed (JsonObject ?no))
            \<and> (\<not> True \<or> \<not> success ?no)"
    by (simp add: example_world_def provider_response_def)
  have h2: "fetch_create_square_booking ?w2 ?rq = Response True (Parsed (JsonObject ?yes))
            \<and> success ?yes"
    by (simp add: example_world_def provider_response_def)
  have msg: "or_string (SquareBookingResponse.message ?no) ''Failed to create Square booking''
             = ''Failed to create Square booking''"
    by (simp add: or_string_def provider_response_def)
  show ?thesis
    using createSquareBooking_rejects_or_returns [of ?w1 ?rq Unparsable True ?no ?no]
      createSquareBooking_rejects_or_returns [of ?w2 ?rq Unparsable True ?yes ?yes]
      h1 h2 msg
    by simp
qed

end
